theory Spec2Isabelle
  imports Main
begin

unbundle bit_operations_syntax

section \<open>Values and collaborators of \<open>disco/types/guild.py\<close>\<close>

text \<open>
  Snowflake ids are Python integers. Decoded field values that travel in a remote call
  are kept as tagged Python values, so that the keyword arguments of a call can be
  compared key by key.
\<close>

type_synonym snowflake = int

datatype pyval = PyNone | PyStr string | PyInt int | PyBool bool | PyList "pyval list"

text \<open>Python truthiness, as used by \<open>nickname or ''\<close>.\<close>

fun truthy :: "pyval \<Rightarrow> bool" where
  "truthy PyNone = False"
| "truthy (PyStr s) = (s \<noteq> [])"
| "truthy (PyInt i) = (i \<noteq> 0)"
| "truthy (PyBool b) = b"
| "truthy (PyList xs) = (xs \<noteq> [])"

text \<open>\<open>a or b\<close> of Python: the left operand when it is truthy, the right one otherwise.\<close>

definition py_or :: "pyval \<Rightarrow> pyval \<Rightarrow> pyval" where
  "py_or a b = (if truthy a then a else b)"

type_synonym kwargs = "(string \<times> pyval) list"

text \<open>
  The exceptions the module can meet: \<open>APIException\<close> is the one \<open>get_member\<close> catches,
  \<open>AttributeError\<close> is what an attribute access on \<open>None\<close> raises, and
  \<open>OtherException\<close> stands for any other exception of a remote call, which nothing in
  the module catches.
\<close>

datatype exn = APIException | AttributeError | OtherException

text \<open>The gateway opcode used by \<open>sync\<close> (the only one this module sends).\<close>

datatype OPCode = REQUEST_GUILD_MEMBERS

text \<open>
  Every call that leaves the module is recorded, in order: the three remote API calls of
  the operations modelled here, and the gateway send.
\<close>

datatype effect =
    guilds_members_get snowflake snowflake
  | guilds_members_modify snowflake snowflake kwargs
  | guilds_roles_modify snowflake snowflake kwargs
  | gw_send OPCode kwargs

text \<open>
  Modelled from the spec: \<open>PermissionValue\<close> of \<open>disco/types/permissions.py\<close>, which is
  not part of the sources at hand. The spec describes it as a bitset wrapper whose \<open>+\<close>
  is the union of the two bitsets; \<open>value'\<close> is its attribute \<open>value\<close>, the raw integer the
  wrapper holds (read by \<open>update_role\<close>).
\<close>

datatype PermissionValue = PermissionValue (value': int)

definition perm_add :: "PermissionValue \<Rightarrow> PermissionValue \<Rightarrow> PermissionValue" where
  "perm_add a b = PermissionValue (value' a OR value' b)"

section \<open>The entity classes\<close>

text \<open>
  \<open>GuildSubType\<close> carries the back-reference \<open>guild_id\<close>, which is unset (\<open>None\<close>) until
  something stores an id in it. \<open>Emoji\<close>, \<open>Role\<close> and \<open>GuildMember\<close> inherit from it.
\<close>

record GuildSubType =
  guild_id :: "snowflake option"

record Emoji = GuildSubType +
  id :: snowflake
  name :: string
  require_colons :: bool
  managed :: bool
  roles :: "snowflake list"

record Role = GuildSubType +
  id :: snowflake
  name :: string
  hoist :: bool
  managed :: bool
  color :: int
  permissions :: PermissionValue
  position :: int
  mentionable :: bool

text \<open>
  \<open>User\<close>, \<open>Channel\<close> and \<open>VoiceState\<close> are declared in other modules; only the fields
  this module reads or writes are kept: the id of a user, the key and the back-reference
  of a channel, and the key, the user and the back-reference of a voice state.
\<close>

record User =
  id :: snowflake

record Channel =
  id :: snowflake
  guild_id :: "snowflake option"

record VoiceState =
  session_id :: string
  user_id :: snowflake
  guild_id :: "snowflake option"

record GuildMember = GuildSubType +
  user :: User
  nick :: "string option"
  mute :: bool
  deaf :: bool
  joined_at :: string
  roles :: "snowflake list"

text \<open>The fields of \<open>Guild\<close> that the operations below read or write.\<close>

record Guild =
  id :: snowflake
  owner_id :: snowflake
  members :: "snowflake \<rightharpoonup> GuildMember"
  channels :: "snowflake \<rightharpoonup> Channel"
  roles :: "snowflake \<rightharpoonup> Role"
  emojis :: "snowflake \<rightharpoonup> Emoji"
  voice_states :: "string \<rightharpoonup> VoiceState"
  synced :: bool

text \<open>
  The outcome of an operation of a guild: what it returns or raises, the guild afterwards,
  and the calls it made, in order.
\<close>

type_synonym 'a outcome = "(exn + 'a) \<times> Guild \<times> effect list"

text \<open>
  The remote side of \<open>guilds_members_get\<close>: for a guild id and a user id, the member it
  answers with or the exception it raises.
\<close>

type_synonym members_api = "snowflake \<Rightarrow> snowflake \<Rightarrow> exn + GuildMember"

section \<open>Construction\<close>

text \<open>
  Modelled from the spec: \<open>attach\<close> of the entity base class (\<open>disco/types/base.py\<close>, not
  part of the sources at hand). The spec: given the child collections of a freshly
  constructed aggregate, stamp each child with a fixed set of extra field values. The
  second argument is the stamping of one child.
\<close>

definition attach :: "('k \<rightharpoonup> 'a) \<Rightarrow> ('a \<Rightarrow> 'a) \<Rightarrow> ('k \<rightharpoonup> 'a)" where
  "attach items stamp = (\<lambda>k. map_option stamp (items k))"

text \<open>
  \<open>Guild.__init__\<close>: after the fields are loaded (the argument), the five collections
  are attached in the order of the source, each with \<open>{'guild_id': self.id}\<close>.
\<close>

definition Guild_init :: "Guild \<Rightarrow> Guild" where
  "Guild_init self =
     (let self = self\<lparr>channels := attach (channels self) (\<lambda>c. c\<lparr>Channel.guild_id := Some (Guild.id self)\<rparr>)\<rparr>;
          self = self\<lparr>members := attach (members self) (\<lambda>c. c\<lparr>GuildSubType.guild_id := Some (Guild.id self)\<rparr>)\<rparr>;
          self = self\<lparr>Guild.roles := attach (Guild.roles self) (\<lambda>c. c\<lparr>GuildSubType.guild_id := Some (Guild.id self)\<rparr>)\<rparr>;
          self = self\<lparr>emojis := attach (emojis self) (\<lambda>c. c\<lparr>GuildSubType.guild_id := Some (Guild.id self)\<rparr>)\<rparr>;
          self = self\<lparr>voice_states := attach (voice_states self) (\<lambda>c. c\<lparr>VoiceState.guild_id := Some (Guild.id self)\<rparr>)\<rparr>
      in self)"

section \<open>Operations of \<open>Guild\<close>\<close>

text \<open>
  \<open>get_member\<close>. The argument \<open>uid\<close> is the id \<open>to_snowflake(user)\<close> yields. On a miss the remote
  call is made; its result is stored under the requested id, an \<open>APIException\<close> is
  caught and \<open>None\<close> returned, any other exception propagates.
\<close>

definition get_member :: "members_api \<Rightarrow> Guild \<Rightarrow> snowflake \<Rightarrow> GuildMember option outcome" where
  "get_member api self uid =
     (if uid \<notin> dom (members self) then
        (case api (Guild.id self) uid of
           Inr m \<Rightarrow>
             (let self' = self\<lparr>members := (members self)(uid \<mapsto> m)\<rparr>
              in (Inr (members self' uid), self', [guilds_members_get (Guild.id self) uid]))
         | Inl APIException \<Rightarrow> (Inr None, self, [guilds_members_get (Guild.id self) uid])
         | Inl e \<Rightarrow> (Inl e, self, [guilds_members_get (Guild.id self) uid]))
      else (Inr (members self uid), self, []))"

text \<open>
  The loop of \<open>get_permissions\<close>: \<open>for role in map(self.roles.get, member.roles): value +=
  role.permissions\<close>. \<open>dict.get\<close> yields \<open>None\<close> for an id that is not a key, and
  \<open>None.permissions\<close> raises \<open>AttributeError\<close>.
\<close>

fun add_roles :: "(snowflake \<rightharpoonup> Role) \<Rightarrow> snowflake list \<Rightarrow> PermissionValue \<Rightarrow> exn + PermissionValue" where
  "add_roles rs [] v = Inr v"
| "add_roles rs (rid # rids) v =
     (case rs rid of
        None \<Rightarrow> Inl AttributeError
      | Some role \<Rightarrow> add_roles rs rids (perm_add v (permissions role)))"

text \<open>
  \<open>get_permissions\<close>. The first argument is the value of \<open>Permissions.ADMINISTRATOR\<close>, an
  enumeration declared in another module. The statements follow the source: the owner
  test, the call of \<open>get_member\<close>, the lookup of the role whose id is the guild's id
  (\<open>None.permissions\<close> raises), then the loop over \<open>member.roles\<close> (\<open>None.roles\<close> raises).
\<close>

definition get_permissions :: "int \<Rightarrow> members_api \<Rightarrow> Guild \<Rightarrow> User \<Rightarrow> PermissionValue outcome" where
  "get_permissions ADMINISTRATOR api self u =
     (if owner_id self = User.id u then (Inr (PermissionValue ADMINISTRATOR), self, [])
      else
        (case get_member api self (User.id u) of
           (Inl e, self', t) \<Rightarrow> (Inl e, self', t)
         | (Inr member, self', t) \<Rightarrow>
             (case Guild.roles self' (Guild.id self') of
                None \<Rightarrow> (Inl AttributeError, self', t)
              | Some everyone \<Rightarrow>
                  (case member of
                     None \<Rightarrow> (Inl AttributeError, self', t)
                   | Some m \<Rightarrow>
                       (case add_roles (Guild.roles self') (GuildMember.roles m)
                               (PermissionValue (value' (permissions everyone))) of
                          Inl e \<Rightarrow> (Inl e, self', t)
                        | Inr v \<Rightarrow> (Inr v, self', t))))))"

text \<open>\<open>update_role\<close>: one \<open>guilds_roles_modify\<close> call with six keyword arguments.\<close>

definition update_role :: "Guild \<Rightarrow> Role \<Rightarrow> Guild \<times> effect list" where
  "update_role self role =
     (self, [guilds_roles_modify (Guild.id self) (Role.id role)
        [(''name'', PyStr (Role.name role)),
         (''permissions'', PyInt (value' (permissions role))),
         (''position'', PyInt (position role)),
         (''color'', PyInt (color role)),
         (''hoist'', PyBool (hoist role)),
         (''mentionable'', PyBool (mentionable role))]])"

text \<open>\<open>sync\<close>: nothing when \<open>synced\<close> is set; otherwise the flag is set, then the send.\<close>

definition sync :: "Guild \<Rightarrow> Guild \<times> effect list" where
  "sync self =
     (if synced self then (self, [])
      else (self\<lparr>synced := True\<rparr>,
            [gw_send REQUEST_GUILD_MEMBERS
               [(''guild_id'', PyInt (Guild.id self)), (''query'', PyStr []), (''limit'', PyInt 0)]]))"

text \<open>A caller that calls \<open>sync\<close> \<open>n\<close> times in sequence; the calls made are concatenated.\<close>

fun sync_times :: "nat \<Rightarrow> Guild \<Rightarrow> Guild \<times> effect list" where
  "sync_times 0 self = (self, [])"
| "sync_times (Suc n) self =
     (case sync self of (self', t) \<Rightarrow>
        (case sync_times n self' of (self'', t') \<Rightarrow> (self'', t @ t')))"

section \<open>Operations of \<open>GuildMember\<close>\<close>

text \<open>
  The property \<open>GuildSubType.guild\<close>: \<open>self.client.state.guilds.get(self.guild_id)\<close>. The
  first argument is the client's registry of guilds; an unset \<open>guild_id\<close> is no key of
  it. The result is \<open>None\<close> when the lookup finds nothing.
\<close>

definition guild :: "(snowflake \<rightharpoonup> Guild) \<Rightarrow> 'a GuildSubType_scheme \<Rightarrow> Guild option" where
  "guild guilds self = (case GuildSubType.guild_id self of None \<Rightarrow> None | Some gid \<Rightarrow> guilds gid)"

text \<open>
  \<open>set_nickname\<close> and \<open>add_role\<close>: the arguments of the remote call are evaluated first,
  and \<open>self.guild.id\<close> raises \<open>AttributeError\<close> when the guild does not resolve. The
  result is what is raised or returned, the member afterwards, and the calls made.
\<close>

definition set_nickname ::
    "(snowflake \<rightharpoonup> Guild) \<Rightarrow> GuildMember \<Rightarrow> pyval \<Rightarrow> (exn + unit) \<times> GuildMember \<times> effect list" where
  "set_nickname guilds self nickname =
     (case guild guilds self of
        None \<Rightarrow> (Inl AttributeError, self, [])
      | Some g \<Rightarrow>
          (Inr (), self,
           [guilds_members_modify (Guild.id g) (User.id (user self))
              [(''nick'', py_or nickname (PyStr []))]]))"

definition add_role ::
    "(snowflake \<rightharpoonup> Guild) \<Rightarrow> GuildMember \<Rightarrow> Role \<Rightarrow> (exn + unit) \<times> GuildMember \<times> effect list" where
  "add_role guilds self role =
     (let roles' = GuildMember.roles self @ [Role.id role] in
      case guild guilds self of
        None \<Rightarrow> (Inl AttributeError, self, [])
      | Some g \<Rightarrow>
          (Inr (), self,
           [guilds_members_modify (Guild.id g) (User.id (user self))
              [(''roles'', PyList (map PyInt roles'))]]))"

section \<open>Example values\<close>

text \<open>
  The guild of the scenarios: id 1, owner 9, the everyone role (id 1) and a second role
  (id 5). Member 3 holds role 5; member 4 also lists role 7, which is no key of the role map.
\<close>

definition ex_everyone :: Role where
  "ex_everyone = \<lparr>GuildSubType.guild_id = Some 1, Role.id = 1, Role.name = ''everyone'', hoist = False,
      Role.managed = False, color = 0, permissions = PermissionValue 1024, position = 0,
      mentionable = False\<rparr>"

definition ex_writer :: Role where
  "ex_writer = \<lparr>GuildSubType.guild_id = Some 1, Role.id = 5, Role.name = ''writer'', hoist = True,
      Role.managed = False, color = 255, permissions = PermissionValue 2048, position = 1,
      mentionable = True\<rparr>"

definition ex_member :: "snowflake option \<Rightarrow> snowflake \<Rightarrow> snowflake list \<Rightarrow> GuildMember" where
  "ex_member gid uid rs = \<lparr>GuildSubType.guild_id = gid, user = \<lparr>User.id = uid\<rparr>, nick = None,
      mute = False, deaf = False, joined_at = ''2016-10-01'', GuildMember.roles = rs\<rparr>"

definition ex_guild :: Guild where
  "ex_guild = \<lparr>Guild.id = 1, owner_id = 9,
      members = [3 \<mapsto> ex_member (Some 1) 3 [5], 4 \<mapsto> ex_member (Some 1) 4 [5, 7]],
      channels = Map.empty,
      Guild.roles = [1 \<mapsto> ex_everyone, 5 \<mapsto> ex_writer],
      emojis = Map.empty,
      voice_states = Map.empty,
      synced = False\<rparr>"

text \<open>A remote side that knows every member, and one that answers every fetch with an API error.\<close>

definition ex_api_found :: members_api where
  "ex_api_found gid uid = Inr (ex_member None uid [])"

definition ex_api_fail :: members_api where
  "ex_api_fail gid uid = Inl APIException"

text \<open>
  A decoded snapshot before construction: one entry in each of the five collections, none
  of them with the guild's id in \<open>guild_id\<close> yet.
\<close>

definition ex_channel :: Channel where
  "ex_channel = \<lparr>Channel.id = 20, Channel.guild_id = None\<rparr>"

definition ex_emoji :: Emoji where
  "ex_emoji = \<lparr>GuildSubType.guild_id = None, Emoji.id = 30, Emoji.name = ''wave'', require_colons = True,
      Emoji.managed = False, Emoji.roles = []\<rparr>"

definition ex_voice_state :: VoiceState where
  "ex_voice_state = \<lparr>session_id = ''s1'', user_id = 3, VoiceState.guild_id = Some 77\<rparr>"

definition ex_snapshot :: Guild where
  "ex_snapshot = \<lparr>Guild.id = 1, owner_id = 9,
      members = [3 \<mapsto> ex_member None 3 [5]],
      channels = [20 \<mapsto> ex_channel],
      Guild.roles = [1 \<mapsto> ex_everyone\<lparr>GuildSubType.guild_id := None\<rparr>],
      emojis = [30 \<mapsto> ex_emoji],
      voice_states = [''s1'' \<mapsto> ex_voice_state],
      synced = False\<rparr>"

text \<open>The client's registry of guilds, holding the example guild under its id.\<close>

definition ex_guilds :: "snowflake \<rightharpoonup> Guild" where
  "ex_guilds = [1 \<mapsto> ex_guild]"


section \<open>Construction attaches the guild id\<close>

lemma attach_Some:
  "attach items stamp k = Some c \<longleftrightarrow> (\<exists>c0. items k = Some c0 \<and> c = stamp c0)"
  by (auto simp: attach_def)

lemma Guild_init_fields:
  "Guild.id (Guild_init g) = Guild.id g"
  "channels (Guild_init g) = attach (channels g) (\<lambda>c. c\<lparr>Channel.guild_id := Some (Guild.id g)\<rparr>)"
  "members (Guild_init g) = attach (members g) (\<lambda>c. c\<lparr>GuildSubType.guild_id := Some (Guild.id g)\<rparr>)"
  "Guild.roles (Guild_init g) = attach (Guild.roles g) (\<lambda>c. c\<lparr>GuildSubType.guild_id := Some (Guild.id g)\<rparr>)"
  "emojis (Guild_init g) = attach (emojis g) (\<lambda>c. c\<lparr>GuildSubType.guild_id := Some (Guild.id g)\<rparr>)"
  "voice_states (Guild_init g) = attach (voice_states g) (\<lambda>c. c\<lparr>VoiceState.guild_id := Some (Guild.id g)\<rparr>)"
  by (simp_all add: Guild_init_def Let_def)

text \<open>
  Claim C5. For every guild constructed from a snapshot, every child present at
  construction in any of the five collections (members, roles, channels, emojis,
  voice states) has its \<open>guild_id\<close> equal to the guild's id; construction neither adds
  nor drops a key of any collection.
\<close>

theorem Guild_init_guild_id:
  "(\<forall>k c. members (Guild_init g) k = Some c \<longrightarrow> GuildSubType.guild_id c = Some (Guild.id (Guild_init g)))
 \<and> (\<forall>k c. Guild.roles (Guild_init g) k = Some c \<longrightarrow> GuildSubType.guild_id c = Some (Guild.id (Guild_init g)))
 \<and> (\<forall>k c. channels (Guild_init g) k = Some c \<longrightarrow> Channel.guild_id c = Some (Guild.id (Guild_init g)))
 \<and> (\<forall>k c. emojis (Guild_init g) k = Some c \<longrightarrow> GuildSubType.guild_id c = Some (Guild.id (Guild_init g)))
 \<and> (\<forall>k c. voice_states (Guild_init g) k = Some c \<longrightarrow> VoiceState.guild_id c = Some (Guild.id (Guild_init g)))
 \<and> dom (members (Guild_init g)) = dom (members g)
 \<and> dom (Guild.roles (Guild_init g)) = dom (Guild.roles g)
 \<and> dom (channels (Guild_init g)) = dom (channels g)
 \<and> dom (emojis (Guild_init g)) = dom (emojis g)
 \<and> dom (voice_states (Guild_init g)) = dom (voice_states g)"
  by (auto simp: Guild_init_fields attach_Some dom_def)

theorem Guild_init_guild_id_witness:
  "members (Guild_init ex_snapshot) 3 = Some (ex_member (Some 1) 3 [5])
   \<and> GuildSubType.guild_id (ex_member (Some 1) 3 [5]) = Some (Guild.id (Guild_init ex_snapshot))
   \<and> Guild.roles (Guild_init ex_snapshot) 1 = Some ex_everyone
   \<and> GuildSubType.guild_id ex_everyone = Some (Guild.id (Guild_init ex_snapshot))
   \<and> channels (Guild_init ex_snapshot) 20 = Some (ex_channel\<lparr>Channel.guild_id := Some 1\<rparr>)
   \<and> emojis (Guild_init ex_snapshot) 30 = Some (ex_emoji\<lparr>GuildSubType.guild_id := Some 1\<rparr>)
   \<and> voice_states (Guild_init ex_snapshot) ''s1'' = Some (ex_voice_state\<lparr>VoiceState.guild_id := Some 1\<rparr>)"
  using Guild_init_guild_id [of ex_snapshot]
  by (simp add: Guild_init_fields attach_def ex_snapshot_def ex_member_def ex_everyone_def)

section \<open>The member cache\<close>

lemma get_member_hit:
  "members g uid = Some m \<Longrightarrow> get_member api g uid = (Inr (Some m), g, [])"
  by (simp add: get_member_def dom_def)

lemma get_member_miss_trace:
  "members g uid = None \<Longrightarrow> snd (snd (get_member api g uid)) = [guilds_members_get (Guild.id g) uid]"
  by (simp add: get_member_def dom_def split: sum.split exn.split)

lemma get_member_miss_found:
  "members g uid = None \<Longrightarrow> api (Guild.id g) uid = Inr m \<Longrightarrow>
   get_member api g uid =
     (Inr (Some m), g\<lparr>members := (members g)(uid \<mapsto> m)\<rparr>, [guilds_members_get (Guild.id g) uid])"
  by (simp add: get_member_def dom_def)

lemma get_member_miss_api_error:
  "members g uid = None \<Longrightarrow> api (Guild.id g) uid = Inl APIException \<Longrightarrow>
   get_member api g uid = (Inr None, g, [guilds_members_get (Guild.id g) uid])"
  by (simp add: get_member_def dom_def)

text \<open>
  Claim C3. For a user id that is not in the member cache, \<open>get_member\<close> makes exactly one
  remote fetch. When the fetch answers with a member, that member is stored under the
  requested id and returned, and a further call for the id is a hit that makes no call,
  whatever the remote side would answer. When the fetch raises the API error, the result
  is \<open>None\<close>, the guild is unchanged, and a further call for the id fetches again.
\<close>

theorem get_member_miss:
  assumes "members g uid = None"
  shows "snd (snd (get_member api g uid)) = [guilds_members_get (Guild.id g) uid]
       \<and> (\<forall>m. api (Guild.id g) uid = Inr m \<longrightarrow>
            get_member api g uid =
              (Inr (Some m), g\<lparr>members := (members g)(uid \<mapsto> m)\<rparr>, [guilds_members_get (Guild.id g) uid])
            \<and> (\<forall>api'. get_member api' (g\<lparr>members := (members g)(uid \<mapsto> m)\<rparr>) uid =
                  (Inr (Some m), g\<lparr>members := (members g)(uid \<mapsto> m)\<rparr>, [])))
       \<and> (api (Guild.id g) uid = Inl APIException \<longrightarrow>
            get_member api g uid = (Inr None, g, [guilds_members_get (Guild.id g) uid])
            \<and> (\<forall>api'. snd (snd (get_member api' g uid)) = [guilds_members_get (Guild.id g) uid]))"
  using assms
  by (simp add: get_member_miss_trace get_member_miss_found get_member_miss_api_error get_member_hit)

theorem get_member_miss_witness:
  "members ex_guild 42 = None
   \<and> get_member ex_api_found ex_guild 42 =
     (Inr (Some (ex_member None 42 [])), ex_guild\<lparr>members := (members ex_guild)(42 \<mapsto> ex_member None 42 [])\<rparr>,
      [guilds_members_get 1 42])
   \<and> get_member ex_api_fail ex_guild 42 = (Inr None, ex_guild, [guilds_members_get 1 42])"
  using get_member_miss [of ex_guild 42 ex_api_found] get_member_miss [of ex_guild 42 ex_api_fail]
  by (simp add: ex_guild_def ex_api_found_def ex_api_fail_def)

text \<open>
  Claim C9. The member that \<open>get_member\<close> stores on a miss is the one the remote fetch
  returned, field for field: its \<open>guild_id\<close> is not set to the guild's id, and no other
  entry of the member map is touched. So when the fetched member's \<open>guild_id\<close> is not the
  guild's id, the member map afterwards holds a member whose \<open>guild_id\<close> differs from the
  id of the guild that holds it.
\<close>

theorem get_member_stores_fetched_as_is:
  assumes "members g uid = None" and "api (Guild.id g) uid = Inr m"
  shows "members (fst (snd (get_member api g uid))) uid = Some m
       \<and> Guild.id (fst (snd (get_member api g uid))) = Guild.id g
       \<and> (\<forall>k. k \<noteq> uid \<longrightarrow> members (fst (snd (get_member api g uid))) k = members g k)
       \<and> (GuildSubType.guild_id m \<noteq> Some (Guild.id g) \<longrightarrow>
            (\<exists>c\<in>ran (members (fst (snd (get_member api g uid)))).
               GuildSubType.guild_id c \<noteq> Some (Guild.id (fst (snd (get_member api g uid))))))"
  using assms by (auto simp: get_member_miss_found ran_def)

theorem get_member_stores_fetched_as_is_witness:
  "members ex_guild 42 = None
   \<and> ex_api_found (Guild.id ex_guild) 42 = Inr (ex_member None 42 [])
   \<and> members (fst (snd (get_member ex_api_found ex_guild 42))) 42 = Some (ex_member None 42 [])
   \<and> GuildSubType.guild_id (ex_member None 42 []) \<noteq> Some (Guild.id ex_guild)"
  using get_member_stores_fetched_as_is [of ex_guild 42 ex_api_found "ex_member None 42 []"]
  by (simp add: ex_guild_def ex_api_found_def ex_member_def)

section \<open>Permissions\<close>

lemma add_roles_resolved:
  "set rids \<subseteq> dom rs \<Longrightarrow>
   \<exists>v. add_roles rs rids v0 = Inr v \<and>
       (\<forall>n. bit (value' v) n \<longleftrightarrow>
              bit (value' v0) n \<or> (\<exists>rid\<in>set rids. \<exists>r. rs rid = Some r \<and> bit (value' (permissions r)) n))"
proof (induction rids arbitrary: v0)
  case Nil
  then show ?case by simp
next
  case (Cons rid rids)
  from Cons.prems obtain r where r: "rs rid = Some r" by auto
  from Cons.prems have "set rids \<subseteq> dom rs" by simp
  from Cons.IH [OF this, of "perm_add v0 (permissions r)"]
  obtain v where v: "add_roles rs rids (perm_add v0 (permissions r)) = Inr v"
    and bits: "\<And>n. bit (value' v) n \<longleftrightarrow>
          bit (value' (perm_add v0 (permissions r))) n
          \<or> (\<exists>rid\<in>set rids. \<exists>r. rs rid = Some r \<and> bit (value' (permissions r)) n)"
    by blast
  have "add_roles rs (rid # rids) v0 = Inr v" using r v by simp
  moreover have "bit (value' v) n \<longleftrightarrow>
          bit (value' v0) n \<or> (\<exists>rid\<in>set (rid # rids). \<exists>r. rs rid = Some r \<and> bit (value' (permissions r)) n)" for n
    using bits [of n] r by (auto simp: perm_add_def bit_or_iff)
  ultimately show ?case by blast
qed

lemma add_roles_stale:
  "\<not> set rids \<subseteq> dom rs \<Longrightarrow> add_roles rs rids v0 = Inl AttributeError"
  by (induction rids arbitrary: v0) (auto split: option.split)

lemma get_permissions_cached:
  assumes "owner_id g \<noteq> User.id u" and "members g (User.id u) = Some m"
    and "Guild.roles g (Guild.id g) = Some everyone"
  shows "get_permissions adm api g u =
     (case add_roles (Guild.roles g) (GuildMember.roles m) (PermissionValue (value' (permissions everyone))) of
        Inl e \<Rightarrow> (Inl e, g, []) | Inr v \<Rightarrow> (Inr v, g, []))"
  using assms by (simp add: get_permissions_def get_member_hit)

text \<open>
  Claim C2. For a user whose id is the guild's \<open>owner_id\<close>, \<open>get_permissions\<close> returns the
  administrator value at once: whatever the role map, the member cache and the remote
  side are, the guild is unchanged and no call is made.
\<close>

theorem get_permissions_owner:
  "owner_id g = User.id u \<Longrightarrow> get_permissions adm api g u = (Inr (PermissionValue adm), g, [])"
  by (simp add: get_permissions_def)

theorem get_permissions_owner_witness:
  "owner_id (ex_guild\<lparr>Guild.roles := Map.empty, members := Map.empty\<rparr>) = User.id \<lparr>User.id = 9\<rparr>
   \<and> get_permissions 8 ex_api_fail (ex_guild\<lparr>Guild.roles := Map.empty, members := Map.empty\<rparr>) \<lparr>User.id = 9\<rparr>
     = (Inr (PermissionValue 8), ex_guild\<lparr>Guild.roles := Map.empty, members := Map.empty\<rparr>, [])"
  using get_permissions_owner
    [of "ex_guild\<lparr>Guild.roles := Map.empty, members := Map.empty\<rparr>" "\<lparr>User.id = 9\<rparr>" 8 ex_api_fail]
  by (simp add: ex_guild_def)

text \<open>
  Claim C1, as the code has it. For a user who is not the owner, whose member is cached,
  in a guild whose role map holds the everyone role (the role under the guild's id): when
  every role id the member lists resolves in the role map, \<open>get_permissions\<close> returns the
  union of the everyone role's bits with the bits of each listed role, changes nothing
  and makes no call; when some listed role id does not resolve, it raises
  \<open>AttributeError\<close> (the loop reads \<open>permissions\<close> of \<open>None\<close>) instead of skipping the id.
\<close>

theorem get_permissions_union:
  assumes "owner_id g \<noteq> User.id u"
    and "members g (User.id u) = Some m"
    and "Guild.roles g (Guild.id g) = Some everyone"
  shows "(set (GuildMember.roles m) \<subseteq> dom (Guild.roles g) \<longrightarrow>
           (\<exists>v. get_permissions adm api g u = (Inr v, g, []) \<and>
                (\<forall>n. bit (value' v) n \<longleftrightarrow>
                       bit (value' (permissions everyone)) n
                       \<or> (\<exists>rid\<in>set (GuildMember.roles m). \<exists>r. Guild.roles g rid = Some r
                              \<and> bit (value' (permissions r)) n))))
       \<and> (\<not> set (GuildMember.roles m) \<subseteq> dom (Guild.roles g) \<longrightarrow>
            get_permissions adm api g u = (Inl AttributeError, g, []))"
proof (intro conjI impI)
  assume "set (GuildMember.roles m) \<subseteq> dom (Guild.roles g)"
  from add_roles_resolved [OF this, of "PermissionValue (value' (permissions everyone))"]
  show "\<exists>v. get_permissions adm api g u = (Inr v, g, []) \<and>
                (\<forall>n. bit (value' v) n \<longleftrightarrow>
                       bit (value' (permissions everyone)) n
                       \<or> (\<exists>rid\<in>set (GuildMember.roles m). \<exists>r. Guild.roles g rid = Some r
                              \<and> bit (value' (permissions r)) n))"
    by (auto simp: get_permissions_cached [OF assms])
next
  assume "\<not> set (GuildMember.roles m) \<subseteq> dom (Guild.roles g)"
  then show "get_permissions adm api g u = (Inl AttributeError, g, [])"
    by (simp add: get_permissions_cached [OF assms] add_roles_stale)
qed

theorem get_permissions_union_witness:
  "owner_id ex_guild \<noteq> User.id \<lparr>User.id = 3\<rparr>
   \<and> members ex_guild 3 = Some (ex_member (Some 1) 3 [5])
   \<and> Guild.roles ex_guild (Guild.id ex_guild) = Some ex_everyone
   \<and> Guild.roles ex_guild 5 = Some ex_writer
   \<and> get_permissions 8 ex_api_fail ex_guild \<lparr>User.id = 3\<rparr> = (Inr (PermissionValue 3072), ex_guild, [])"
  using get_permissions_union [of ex_guild "\<lparr>User.id = 3\<rparr>" "ex_member (Some 1) 3 [5]" ex_everyone 8 ex_api_fail]
  by (simp add: ex_guild_def ex_member_def ex_everyone_def ex_writer_def get_permissions_def
      get_member_def perm_add_def)

text \<open>
  Claim C1 as written fails: member 4 of the example guild is cached and is not the owner,
  the everyone role is present, and the member lists role 7, which the role map does not
  hold. \<open>get_permissions\<close> raises \<open>AttributeError\<close>; it does not return the union of the
  roles that resolve.
\<close>

theorem get_permissions_stale_role_counterexample:
  "owner_id ex_guild \<noteq> User.id \<lparr>User.id = 4\<rparr>
   \<and> members ex_guild 4 = Some (ex_member (Some 1) 4 [5, 7])
   \<and> Guild.roles ex_guild 7 = None
   \<and> fst (get_permissions 8 ex_api_fail ex_guild \<lparr>User.id = 4\<rparr>) = Inl AttributeError"
  by (simp add: ex_guild_def ex_member_def ex_everyone_def ex_writer_def get_permissions_def
      get_member_def perm_add_def)

text \<open>
  Claim C4, as the code has it. For a user who is not the owner, \<open>get_permissions\<close>
  resolves the member through \<open>get_member\<close>. When the member is cached, no call is made
  and the guild is unchanged. When it is not, exactly one remote fetch is made: if the
  fetch answers with a member, that member is stored in the member map and the result is
  the one computed from the filled cache; if the fetch raises the API error, there is no
  member record and \<open>get_permissions\<close> raises \<open>AttributeError\<close>, the guild unchanged.
\<close>

theorem get_permissions_member_resolution:
  assumes "owner_id g \<noteq> User.id u"
  shows "(\<forall>m. members g (User.id u) = Some m \<longrightarrow> snd (get_permissions adm api g u) = (g, []))
       \<and> (members g (User.id u) = None \<longrightarrow>
            snd (snd (get_permissions adm api g u)) = [guilds_members_get (Guild.id g) (User.id u)]
            \<and> (\<forall>m. api (Guild.id g) (User.id u) = Inr m \<longrightarrow>
                 fst (snd (get_permissions adm api g u)) = g\<lparr>members := (members g)(User.id u \<mapsto> m)\<rparr>
                 \<and> fst (get_permissions adm api g u) =
                     fst (get_permissions adm api' (g\<lparr>members := (members g)(User.id u \<mapsto> m)\<rparr>) u))
            \<and> (api (Guild.id g) (User.id u) = Inl APIException \<longrightarrow>
                 get_permissions adm api g u =
                   (Inl AttributeError, g, [guilds_members_get (Guild.id g) (User.id u)])))"
  using assms
  by (auto simp: get_permissions_def get_member_def dom_def split: option.split sum.split exn.split)

theorem get_permissions_member_resolution_witness:
  "owner_id ex_guild \<noteq> User.id \<lparr>User.id = 3\<rparr> \<and> owner_id ex_guild \<noteq> User.id \<lparr>User.id = 42\<rparr>
   \<and> snd (get_permissions 8 ex_api_fail ex_guild \<lparr>User.id = 3\<rparr>) = (ex_guild, [])
   \<and> get_permissions 8 ex_api_fail ex_guild \<lparr>User.id = 42\<rparr> = (Inl AttributeError, ex_guild, [guilds_members_get 1 42])
   \<and> fst (snd (get_permissions 8 ex_api_found ex_guild \<lparr>User.id = 42\<rparr>))
       = ex_guild\<lparr>members := (members ex_guild)(42 \<mapsto> ex_member None 42 [])\<rparr>"
  using get_permissions_member_resolution [of ex_guild "\<lparr>User.id = 3\<rparr>" 8 ex_api_fail]
    get_permissions_member_resolution [of ex_guild "\<lparr>User.id = 42\<rparr>" 8 ex_api_fail]
    get_permissions_member_resolution [of ex_guild "\<lparr>User.id = 42\<rparr>" 8 ex_api_found]
  by (simp add: ex_guild_def ex_api_fail_def ex_api_found_def)

text \<open>
  Claim C4 as written fails: user 42 is not the owner and is not in the member cache of
  the example guild; with a remote side that knows the member, \<open>get_permissions\<close> makes
  the remote fetch, stores the fetched member in the member map, and returns a
  permission value.
\<close>

theorem get_permissions_fetch_counterexample:
  "owner_id ex_guild \<noteq> User.id \<lparr>User.id = 42\<rparr>
   \<and> members ex_guild 42 = None
   \<and> snd (snd (get_permissions 8 ex_api_found ex_guild \<lparr>User.id = 42\<rparr>)) = [guilds_members_get 1 42]
   \<and> members (fst (snd (get_permissions 8 ex_api_found ex_guild \<lparr>User.id = 42\<rparr>))) 42 = Some (ex_member None 42 [])
   \<and> fst (get_permissions 8 ex_api_found ex_guild \<lparr>User.id = 42\<rparr>) = Inr (PermissionValue 1024)"
  by (simp add: ex_guild_def ex_member_def ex_everyone_def ex_writer_def ex_api_found_def
      get_permissions_def get_member_def perm_add_def)

section \<open>Dispatch to the remote side\<close>

text \<open>
  Claim C8. \<open>update_role\<close> makes one \<open>guilds_roles_modify\<close> call for the guild's id and
  the role's id whose keyword arguments are exactly name, permissions, position, color,
  hoist and mentionable, each once and each with the role's value, the permissions as the
  raw integer of the bitset; the guild is returned as it was.
\<close>

theorem update_role_payload:
  "\<exists>kw. update_role g r = (g, [guilds_roles_modify (Guild.id g) (Role.id r) kw])
      \<and> distinct (map fst kw)
      \<and> set (map fst kw) = {''name'', ''permissions'', ''position'', ''color'', ''hoist'', ''mentionable''}
      \<and> map_of kw ''name'' = Some (PyStr (Role.name r))
      \<and> map_of kw ''permissions'' = Some (PyInt (value' (permissions r)))
      \<and> map_of kw ''position'' = Some (PyInt (position r))
      \<and> map_of kw ''color'' = Some (PyInt (color r))
      \<and> map_of kw ''hoist'' = Some (PyBool (hoist r))
      \<and> map_of kw ''mentionable'' = Some (PyBool (mentionable r))"
  by (simp add: update_role_def)

theorem update_role_payload_witness:
  "update_role ex_guild ex_writer =
     (ex_guild, [guilds_roles_modify 1 5
        [(''name'', PyStr ''writer''), (''permissions'', PyInt 2048), (''position'', PyInt 1),
         (''color'', PyInt 255), (''hoist'', PyBool True), (''mentionable'', PyBool True)]])"
  using update_role_payload [of ex_guild ex_writer]
  by (simp add: update_role_def ex_guild_def ex_writer_def)

text \<open>
  Claim C7, as the code has it. For a member whose guild resolves in the client's
  registry (\<open>self.guild\<close>), with role-id list \<open>L\<close>, and for every role \<open>r\<close>, \<open>add_role\<close>
  makes exactly one \<open>guilds_members_modify\<close> call whose \<open>roles\<close> argument is the whole
  list \<open>L\<close> followed by the id of \<open>r\<close>: \<open>L\<close> is a prefix in its order, the id of \<open>r\<close> is
  last, and the id occurs once more than in \<open>L\<close>, so a duplicate is kept. For a member
  whose guild does not resolve, \<open>self.guild.id\<close> raises \<open>AttributeError\<close> and no call is
  made. In both cases the member, and with it its \<open>roles\<close> field, is not modified.
\<close>

theorem add_role_appends:
  "(\<forall>g. guild guilds m = Some g \<longrightarrow>
      (\<exists>sent. add_role guilds m r =
           (Inr (), m,
            [guilds_members_modify (Guild.id g) (User.id (user m)) [(''roles'', PyList (map PyInt sent))]])
         \<and> sent = GuildMember.roles m @ [Role.id r]
         \<and> take (length (GuildMember.roles m)) sent = GuildMember.roles m
         \<and> last sent = Role.id r
         \<and> length sent = Suc (length (GuildMember.roles m))
         \<and> count_list sent (Role.id r) = Suc (count_list (GuildMember.roles m) (Role.id r))))
   \<and> (guild guilds m = None \<longrightarrow> add_role guilds m r = (Inl AttributeError, m, []))"
  by (simp add: add_role_def)

theorem add_role_appends_witness:
  "guild ex_guilds (ex_member (Some 1) 3 [5, 2]) = Some ex_guild
   \<and> add_role ex_guilds (ex_member (Some 1) 3 [5, 2]) ex_writer =
       (Inr (), ex_member (Some 1) 3 [5, 2],
        [guilds_members_modify 1 3 [(''roles'', PyList [PyInt 5, PyInt 2, PyInt 5])]])
   \<and> guild ex_guilds (ex_member (Some 2) 3 [5, 2]) = None
   \<and> add_role ex_guilds (ex_member (Some 2) 3 [5, 2]) ex_writer =
       (Inl AttributeError, ex_member (Some 2) 3 [5, 2], [])"
  using add_role_appends [of ex_guilds "ex_member (Some 1) 3 [5, 2]" ex_writer]
    add_role_appends [of ex_guilds "ex_member (Some 2) 3 [5, 2]" ex_writer]
  by (auto simp: guild_def ex_guilds_def ex_member_def ex_writer_def ex_guild_def)

text \<open>
  Claim C7 as written fails: the member that \<open>get_member\<close> stores for user 42 of the
  example guild is the fetched one, whose \<open>guild_id\<close> is unset. Its guild does not
  resolve, and \<open>add_role\<close> raises \<open>AttributeError\<close> without making any call.
\<close>

theorem add_role_unresolved_guild_counterexample:
  "members (fst (snd (get_member ex_api_found ex_guild 42))) 42 = Some (ex_member None 42 [])
   \<and> guild ex_guilds (ex_member None 42 []) = None
   \<and> add_role ex_guilds (ex_member None 42 []) ex_writer = (Inl AttributeError, ex_member None 42 [], [])"
  by (simp add: add_role_def guild_def get_member_def ex_guild_def ex_api_found_def ex_member_def)

text \<open>
  Claim C10, as the code has it. For a member whose guild resolves in the client's
  registry and every nickname argument \<open>v\<close>: when \<open>v\<close> is \<open>None\<close> or otherwise falsy (the
  empty string included), \<open>set_nickname\<close> makes one \<open>guilds_members_modify\<close> call whose
  \<open>nick\<close> is the empty string; when \<open>v\<close> is truthy the call carries \<open>v\<close> itself. For a
  member whose guild does not resolve, \<open>self.guild.id\<close> raises \<open>AttributeError\<close> and no
  call is made, whatever \<open>v\<close> is. In either case \<open>None\<close> and the empty string lead to the
  same outcome.
\<close>

theorem set_nickname_payload:
  "(\<forall>g. guild guilds m = Some g \<longrightarrow>
      (\<not> truthy v \<longrightarrow>
            set_nickname guilds m v =
              (Inr (), m, [guilds_members_modify (Guild.id g) (User.id (user m)) [(''nick'', PyStr [])]]))
       \<and> (truthy v \<longrightarrow>
            set_nickname guilds m v =
              (Inr (), m, [guilds_members_modify (Guild.id g) (User.id (user m)) [(''nick'', v)]])))
   \<and> (guild guilds m = None \<longrightarrow> set_nickname guilds m v = (Inl AttributeError, m, []))
   \<and> set_nickname guilds m PyNone = set_nickname guilds m (PyStr [])"
  by (simp add: set_nickname_def py_or_def split: option.split)

theorem set_nickname_payload_witness:
  "guild ex_guilds (ex_member (Some 1) 3 [5]) = Some ex_guild
   \<and> set_nickname ex_guilds (ex_member (Some 1) 3 [5]) PyNone =
       (Inr (), ex_member (Some 1) 3 [5], [guilds_members_modify 1 3 [(''nick'', PyStr [])]])
   \<and> set_nickname ex_guilds (ex_member (Some 1) 3 [5]) (PyStr ''bob'') =
       (Inr (), ex_member (Some 1) 3 [5], [guilds_members_modify 1 3 [(''nick'', PyStr ''bob'')]])
   \<and> guild ex_guilds (ex_member (Some 2) 3 [5]) = None
   \<and> set_nickname ex_guilds (ex_member (Some 2) 3 [5]) (PyStr ''bob'') =
       (Inl AttributeError, ex_member (Some 2) 3 [5], [])"
  using set_nickname_payload [of ex_guilds "ex_member (Some 1) 3 [5]" PyNone]
    set_nickname_payload [of ex_guilds "ex_member (Some 1) 3 [5]" "PyStr ''bob''"]
    set_nickname_payload [of ex_guilds "ex_member (Some 2) 3 [5]" "PyStr ''bob''"]
  by (auto simp: guild_def ex_guilds_def ex_member_def ex_guild_def)

text \<open>
  Claim C10 as written fails: for the member fetched for user 42, whose \<open>guild_id\<close> is
  unset, the guild does not resolve, and \<open>set_nickname\<close> raises \<open>AttributeError\<close> without
  making any call, for \<open>None\<close> as for a nickname.
\<close>

theorem set_nickname_unresolved_guild_counterexample:
  "guild ex_guilds (ex_member None 42 []) = None
   \<and> set_nickname ex_guilds (ex_member None 42 []) PyNone = (Inl AttributeError, ex_member None 42 [], [])
   \<and> set_nickname ex_guilds (ex_member None 42 []) (PyStr ''bob'') =
       (Inl AttributeError, ex_member None 42 [], [])"
  by (simp add: set_nickname_def guild_def ex_member_def)

section \<open>The one-shot member sync\<close>

lemma sync_times_synced: "synced g \<Longrightarrow> sync_times n g = (g, [])"
  by (induction n) (simp_all add: sync_def)

lemma sync_times_fresh:
  "\<not> synced g \<Longrightarrow>
   sync_times (Suc n) g =
     (g\<lparr>synced := True\<rparr>,
      [gw_send REQUEST_GUILD_MEMBERS
         [(''guild_id'', PyInt (Guild.id g)), (''query'', PyStr []), (''limit'', PyInt 0)]])"
  by (simp add: sync_def sync_times_synced)

text \<open>
  Claim C6. On a guild whose \<open>synced\<close> flag is still clear (the field's default), calling
  \<open>sync\<close> \<open>n \<ge> 1\<close> times in sequence sends the request for the full member list exactly
  once, with the guild's id, the empty query and limit 0, and leaves \<open>synced\<close> set. On a
  guild whose flag is set, any number of calls sends nothing and changes nothing. After
  a call of \<open>sync\<close> the flag is set, and \<open>get_member\<close>, \<open>get_permissions\<close> and \<open>update_role\<close>
  leave the flag as it is, so it never returns to clear.
\<close>

theorem sync_once:
  "(\<not> synced g \<and> 1 \<le> n \<longrightarrow>
      sync_times n g =
        (g\<lparr>synced := True\<rparr>,
         [gw_send REQUEST_GUILD_MEMBERS
            [(''guild_id'', PyInt (Guild.id g)), (''query'', PyStr []), (''limit'', PyInt 0)]]))
   \<and> (synced g \<longrightarrow> sync_times n g = (g, []))
   \<and> synced (fst (sync_times (Suc n) g))
   \<and> synced (fst (snd (get_member api g uid))) = synced g
   \<and> synced (fst (snd (get_permissions adm api g u))) = synced g
   \<and> synced (fst (update_role g r)) = synced g"
proof (intro conjI impI)
  assume a: "\<not> synced g \<and> 1 \<le> n"
  then obtain k where "n = Suc k" by (cases n) auto
  with a show "sync_times n g =
        (g\<lparr>synced := True\<rparr>,
         [gw_send REQUEST_GUILD_MEMBERS
            [(''guild_id'', PyInt (Guild.id g)), (''query'', PyStr []), (''limit'', PyInt 0)]])"
    by (simp add: sync_times_fresh del: sync_times.simps)
next
  assume "synced g" then show "sync_times n g = (g, [])" by (rule sync_times_synced)
next
  show "synced (fst (sync_times (Suc n) g))"
    by (cases "synced g") (simp_all add: sync_times_fresh sync_times_synced del: sync_times.simps)
next
  show "synced (fst (snd (get_member api g uid))) = synced g"
    by (simp add: get_member_def split: sum.split exn.split)
next
  show "synced (fst (snd (get_permissions adm api g u))) = synced g"
    by (simp add: get_permissions_def get_member_def split: sum.split exn.split option.split)
next
  show "synced (fst (update_role g r)) = synced g" by (simp add: update_role_def)
qed

theorem sync_once_witness:
  "\<not> synced ex_guild \<and> (1::nat) \<le> 3
   \<and> sync_times 3 ex_guild =
       (ex_guild\<lparr>synced := True\<rparr>,
        [gw_send REQUEST_GUILD_MEMBERS [(''guild_id'', PyInt 1), (''query'', PyStr []), (''limit'', PyInt 0)]])
   \<and> sync_times 2 (ex_guild\<lparr>synced := True\<rparr>) = (ex_guild\<lparr>synced := True\<rparr>, [])"
  using sync_once [of ex_guild 3] sync_once [of "ex_guild\<lparr>synced := True\<rparr>" 2]
  by (simp add: ex_guild_def)

end
